theory Spec2Isabelle
  imports Main
begin

section \<open>Data model\<close>

text \<open>
  The configuration types of the controller package, as the controller and its test use
  them: \<^verbatim>\<open>Configuration{Secrets: []MirrorConfig}\<close>,
  \<^verbatim>\<open>MirrorConfig{From, To SecretLocation}\<close>,
  \<^verbatim>\<open>SecretLocation{Namespace, Name string}\<close>.
\<close>

record SecretLocation =
  Namespace :: string
  Name :: string

record MirrorConfig =
  From :: SecretLocation
  To :: SecretLocation

record Configuration =
  Secrets :: "MirrorConfig list"

text \<open>
  A byte slice is \<open>None\<close> when it is the nil slice and \<open>Some bs\<close> otherwise:
  \<^verbatim>\<open>reflect.DeepEqual\<close> tells a nil slice from an empty one. A \<open>char\<close> is a byte.
\<close>

type_synonym bytes = "char list option"

text \<open>
  \<^verbatim>\<open>metav1.Time\<close> as nanoseconds since the zero time; the pointer
  \<^verbatim>\<open>*metav1.Time\<close> is an option, and \<^verbatim>\<open>IsZero\<close> holds of the nil pointer
  and of the zero time.
\<close>

type_synonym Time = int

definition IsZero :: "Time option \<Rightarrow> bool" where
  "IsZero t = (case t of None \<Rightarrow> True | Some v \<Rightarrow> v = 0)"

text \<open>
  The object metadata and the secret of the Kubernetes API, with the fields the
  controller reads or writes and a representative part of the others. A Go map is a
  partial function; a nil map and an empty map both have length 0 and both differ from
  every non-empty map, which is all the controller asks of them, so both are
  \<open>Map.empty\<close>.
\<close>

record ObjectMeta =
  Name :: string
  Namespace :: string
  UID :: string
  ResourceVersion :: string
  DeletionTimestamp :: "Time option"
  Labels :: "string \<rightharpoonup> string"
  Annotations :: "string \<rightharpoonup> string"
  Finalizers :: "string list"

record Secret =
  ObjectMeta :: ObjectMeta
  Data :: "string \<rightharpoonup> bytes"
  StringData :: "string \<rightharpoonup> string"
  Type :: string

text \<open>The zero values \<^verbatim>\<open>metav1.ObjectMeta{}\<close> and \<^verbatim>\<open>coreapi.Secret{}\<close>.\<close>

definition zero_ObjectMeta :: ObjectMeta where
  "zero_ObjectMeta =
     \<lparr>Name = [], Namespace = [], UID = [], ResourceVersion = [],
      DeletionTimestamp = None, Labels = Map.empty, Annotations = Map.empty,
      Finalizers = []\<rparr>"

definition zero_Secret :: Secret where
  "zero_Secret =
     \<lparr>ObjectMeta = zero_ObjectMeta, Data = Map.empty, StringData = Map.empty, Type = []\<rparr>"

text \<open>
  Errors as values. \<open>NotFound\<close> is an API status error whose reason is not-found;
  \<open>KeyFormat\<close> is the error of \<^verbatim>\<open>SplitMetaNamespaceKey\<close>; \<open>Failure\<close> is any
  other error, with its text; \<open>MirrorFailed\<close> is the error that reconcile builds with
  \<^verbatim>\<open>fmt.Errorf("failed to mirror secret: %v", mirrorErrors)\<close>, holding the slice
  it prints. A Go \<^verbatim>\<open>error\<close> is an \<open>error option\<close>, \<open>None\<close> being nil.
\<close>

datatype error =
    NotFound string
  | KeyFormat string
  | Failure string
  | MirrorFailed "error option list"

fun IsNotFound :: "error option \<Rightarrow> bool" where
  "IsNotFound (Some (NotFound m)) = True"
| "IsNotFound e = False"

text \<open>
  The write calls of the API client, with the namespace of the typed client they are
  issued on. The client is the environment: its answer to a call may depend on the
  calls issued before it. The calls issued so far are the state that the controller's
  functions pass along.
\<close>

datatype action = Create string Secret | Update string Secret

type_synonym api = "action list \<Rightarrow> action \<Rightarrow> error option"

text \<open>
  The controller. The lister is the informer's cache, read by namespace and name; it
  answers with the secret or with an error. During one call of reconcile the cache is
  taken as it is when the call starts.
\<close>

record SecretMirror =
  config :: Configuration
  client :: api
  lister :: "string \<Rightarrow> string \<Rightarrow> error + Secret"

definition NewSecretMirror ::
  "(string \<Rightarrow> string \<Rightarrow> error + Secret) \<Rightarrow> api \<Rightarrow> Configuration \<Rightarrow> SecretMirror" where
  "NewSecretMirror informer cl cfg = \<lparr>config = cfg, client = cl, lister = informer\<rparr>"

section \<open>mirrorSecret\<close>

text \<open>
  The result is the returned error and the write calls issued so far.
  \<^verbatim>\<open>secret.DeepCopy()\<close> is the value itself, and the assignment to
  \<^verbatim>\<open>destination.Data\<close> a record update.
\<close>

definition mirrorSecret ::
  "SecretMirror \<Rightarrow> Secret \<Rightarrow> SecretLocation \<Rightarrow> action list \<Rightarrow> error option \<times> action list" where
  "mirrorSecret c source to calls =
     (if Data source = Map.empty then (None, calls)
      else
        (case lister c (SecretLocation.Namespace to) (SecretLocation.Name to) of
           Inr secret \<Rightarrow>
             if Data secret = Data source then (None, calls)
             else
               (let destination = secret\<lparr>Data := Data source\<rparr>;
                    a = Update (SecretLocation.Namespace to) destination
                in (client c calls a, calls @ [a]))
         | Inl getErr \<Rightarrow>
             if IsNotFound (Some getErr) then
               (let destination =
                      zero_Secret
                        \<lparr>ObjectMeta :=
                           zero_ObjectMeta
                             \<lparr>Name := SecretLocation.Name to,
                              Namespace := SecretLocation.Namespace to\<rparr>,
                         Data := Data source\<rparr>;
                    a = Create (SecretLocation.Namespace to) destination
                in (client c calls a, calls @ [a]))
             else (Some getErr, calls)))"

section \<open>reconcile\<close>

text \<open>
  \<^verbatim>\<open>strings.Split(key, "/")\<close>: the pieces between the separators, one more
  than there are separators.
\<close>

fun split_on :: "char \<Rightarrow> string \<Rightarrow> string list" where
  "split_on sep [] = [[]]"
| "split_on sep (x # xs) =
     (if x = sep then [] # split_on sep xs
      else (case split_on sep xs of
              [] \<Rightarrow> [[x]]
            | p # ps \<Rightarrow> (x # p) # ps))"

text \<open>
  \<^verbatim>\<open>cache.SplitMetaNamespaceKey\<close> of the client library: one piece is a name with
  the empty namespace, two pieces are namespace and name, anything else is an error.
\<close>

definition SplitMetaNamespaceKey :: "string \<Rightarrow> error + (string \<times> string)" where
  "SplitMetaNamespaceKey key =
     (case split_on CHR ''/'' key of
        [name] \<Rightarrow> Inr ([], name)
      | [namespace, name] \<Rightarrow> Inr (namespace, name)
      | _ \<Rightarrow> Inl (KeyFormat key))"

text \<open>
  The loop of reconcile over \<^verbatim>\<open>c.config.Secrets\<close>: the result of mirrorSecret is
  appended to \<^verbatim>\<open>mirrorErrors\<close> for every rule whose From is the key's
  namespace and name.
\<close>

fun mirror_rules ::
  "SecretMirror \<Rightarrow> Secret \<Rightarrow> string \<Rightarrow> string \<Rightarrow> MirrorConfig list \<Rightarrow>
   error option list \<Rightarrow> action list \<Rightarrow> error option list \<times> action list" where
  "mirror_rules c source namespace name [] mirrorErrors calls = (mirrorErrors, calls)"
| "mirror_rules c source namespace name (mirrorConfig # rest) mirrorErrors calls =
     (if SecretLocation.Namespace (From mirrorConfig) = namespace
         \<and> SecretLocation.Name (From mirrorConfig) = name
      then
        (case mirrorSecret c source (To mirrorConfig) calls of
           (e, calls') \<Rightarrow>
             mirror_rules c source namespace name rest (mirrorErrors @ [e]) calls')
      else mirror_rules c source namespace name rest mirrorErrors calls)"

definition reconcile :: "SecretMirror \<Rightarrow> string \<Rightarrow> action list \<Rightarrow> error option \<times> action list" where
  "reconcile c key calls =
     (case SplitMetaNamespaceKey key of
        Inl err \<Rightarrow> (Some err, calls)
      | Inr (namespace, name) \<Rightarrow>
          (case lister c namespace name of
             Inl err \<Rightarrow>
               if IsNotFound (Some err) then (None, calls) else (Some err, calls)
           | Inr source \<Rightarrow>
               if \<not> IsZero (DeletionTimestamp (ObjectMeta source)) then (None, calls)
               else
                 (case mirror_rules c source namespace name (Secrets (config c)) [] calls of
                    (mirrorErrors, calls') \<Rightarrow>
                      if length mirrorErrors > 0
                      then (Some (MirrorFailed mirrorErrors), calls')
                      else (None, calls'))))"

section \<open>The work queue and handleErr\<close>

text \<open>
  The rate-limiting work queue is a library outside this repository. What handleErr
  uses of it is the requeue count of each key and the delayed re-adds that
  AddRateLimited schedules, each with its delay in milliseconds.
\<close>

record RateLimitingQueue =
  requeueCount :: "string \<Rightarrow> nat"
  scheduled :: "(string \<times> nat) list"

definition maxRetries :: nat where
  "maxRetries = 15"

text \<open>Modelled from the spec: the queue's NumRequeues, the current retry count of a key.\<close>

definition NumRequeues :: "RateLimitingQueue \<Rightarrow> string \<Rightarrow> nat" where
  "NumRequeues q key = requeueCount q key"

text \<open>Modelled from the spec: the queue's Forget, which resets the count of the key to zero.\<close>

definition Forget :: "string \<Rightarrow> RateLimitingQueue \<Rightarrow> RateLimitingQueue" where
  "Forget key q = q\<lparr>requeueCount := (requeueCount q)(key := 0)\<rparr>"

text \<open>
  Modelled from the spec: the queue's AddRateLimited, which increments the count of the
  key and schedules its Add after min(base * 2^(count - 1), cap), with base 5 ms and cap
  1000 s.
\<close>

definition AddRateLimited :: "string \<Rightarrow> RateLimitingQueue \<Rightarrow> RateLimitingQueue" where
  "AddRateLimited key q =
     (let n = requeueCount q key + 1
      in q\<lparr>requeueCount := (requeueCount q)(key := n),
           scheduled := scheduled q @ [(key, min (5 * 2 ^ (n - 1)) 1000000)]\<rparr>)"

definition handleErr :: "error option \<Rightarrow> string \<Rightarrow> RateLimitingQueue \<Rightarrow> RateLimitingQueue" where
  "handleErr err key q =
     (if err = None then Forget key q
      else if NumRequeues q key < maxRetries then AddRateLimited key q
      else Forget key q)"

section \<open>The configuration agent\<close>

text \<open>
  The agent holds a pointer to the published configuration, nil before the first Set.
  The mutex orders the accesses; in this sequential model Config reads the field and
  Set writes it.
\<close>

record Agent =
  agent_c :: "Configuration option"

definition Config :: "Agent \<Rightarrow> Configuration option" where
  "Config ca = agent_c ca"

definition Set_config :: "Agent \<Rightarrow> Configuration option \<Rightarrow> Agent" where
  "Set_config ca cfg = ca\<lparr>agent_c := cfg\<rparr>"

text \<open>
  What the watch goroutine receives: a message of the events channel or of the errors
  channel, or the closing of one of them. \<^verbatim>\<open>Load\<close> is not among the sources; it
  is a parameter, and since the file changes over time each message comes with Load as
  it answers when the message is handled.
\<close>

datatype watch_msg =
    Event string
  | EventsClosed
  | WatcherError error
  | ErrorsClosed

type_synonym loader = "string \<Rightarrow> error + Configuration"

text \<open>What the goroutine does besides Set: its calls of Load and its log lines.\<close>

datatype trace_entry =
    LogModified string
  | LoadCall string
  | LogLoadError string error
  | LogWatcherError error

text \<open>One round of the select; the flag tells whether the loop goes on.\<close>

fun watch_step ::
  "string \<Rightarrow> watch_msg \<times> loader \<Rightarrow> Agent \<times> trace_entry list \<Rightarrow> bool \<times> Agent \<times> trace_entry list" where
  "watch_step configLocation (Event name, load) (ca, tr) =
     (case load configLocation of
        Inl err \<Rightarrow>
          (True, ca, tr @ [LogModified name, LoadCall configLocation,
                           LogLoadError configLocation err])
      | Inr cfg \<Rightarrow>
          (True, Set_config ca (Some cfg), tr @ [LogModified name, LoadCall configLocation]))"
| "watch_step configLocation (EventsClosed, load) (ca, tr) = (False, ca, tr)"
| "watch_step configLocation (WatcherError err, load) (ca, tr) =
     (True, ca, tr @ [LogWatcherError err])"
| "watch_step configLocation (ErrorsClosed, load) (ca, tr) = (False, ca, tr)"

fun watch_loop ::
  "string \<Rightarrow> (watch_msg \<times> loader) list \<Rightarrow> Agent \<times> trace_entry list \<Rightarrow> Agent \<times> trace_entry list" where
  "watch_loop configLocation [] s = s"
| "watch_loop configLocation (m # ms) s =
     (case watch_step configLocation m s of
        (True, s') \<Rightarrow> watch_loop configLocation ms s'
      | (False, s') \<Rightarrow> s')"

section \<open>Example values\<close>

text \<open>
  The rule, the source secret and the clients of the controller's test. The test creates
  the secret through the client of namespace \<^verbatim>\<open>test-ns\<close>, and the cache holds it under
  that namespace; \<open>test_lister\<close> is a cache that holds the source and nothing else.
\<close>

definition test_config :: Configuration where
  "test_config =
     \<lparr>Secrets =
        [\<lparr>From = \<lparr>SecretLocation.Namespace = ''test-ns'', SecretLocation.Name = ''src''\<rparr>,
          To = \<lparr>SecretLocation.Namespace = ''test-ns'', SecretLocation.Name = ''dst''\<rparr>\<rparr>]\<rparr>"

definition defaultSecret :: Secret where
  "defaultSecret =
     zero_Secret
       \<lparr>ObjectMeta := zero_ObjectMeta\<lparr>Name := ''src'', Namespace := ''test-ns''\<rparr>,
        Data := [''test_key'' \<mapsto> Some ''test_value'']\<rparr>"

definition test_lister :: "Secret \<Rightarrow> string \<Rightarrow> string \<Rightarrow> error + Secret" where
  "test_lister src namespace name =
     (if namespace = ''test-ns'' \<and> name = ''src'' then Inr src
      else Inl (NotFound ''secret not found''))"

definition client_ok :: api where
  "client_ok calls a = None"

definition client_failing :: api where
  "client_failing calls a = Some (Failure ''injected error'')"

text \<open>
  A destination secret as the cache may hold it: created earlier, with metadata that the
  API server has filled in, a type, and data that is not the source's.
\<close>

definition existing_dst :: Secret where
  "existing_dst =
     \<lparr>ObjectMeta =
        \<lparr>Name = ''dst'', Namespace = ''test-ns'', UID = ''uid-1'', ResourceVersion = ''7'',
         DeletionTimestamp = None, Labels = [''app'' \<mapsto> ''ci''], Annotations = Map.empty,
         Finalizers = []\<rparr>,
      Data = [''test_key'' \<mapsto> Some ''old_value''], StringData = Map.empty,
      Type = ''Opaque''\<rparr>"

text \<open>The source secret once its deletion has been requested.\<close>

definition deleting_secret :: Secret where
  "deleting_secret =
     defaultSecret\<lparr>ObjectMeta := (ObjectMeta defaultSecret)\<lparr>DeletionTimestamp := Some 1\<rparr>\<rparr>"

text \<open>A lister whose cache is empty.\<close>

definition empty_lister :: "string \<Rightarrow> string \<Rightarrow> error + Secret" where
  "empty_lister namespace name = Inl (NotFound ''secret not found'')"

text \<open>A configuration that mirrors nothing, and an agent that has published nothing yet.\<close>

definition no_rules :: Configuration where
  "no_rules = \<lparr>Secrets = []\<rparr>"

definition new_agent :: Agent where
  "new_agent = \<lparr>agent_c = None\<rparr>"

text \<open>A queue in which no key has been requeued and no re-add is scheduled.\<close>

definition fresh_queue :: RateLimitingQueue where
  "fresh_queue = \<lparr>requeueCount = (\<lambda>key. 0), scheduled = []\<rparr>"

section \<open>Observations on the watch loop\<close>

text \<open>The calls of Load in a trace.\<close>

fun load_calls :: "trace_entry list \<Rightarrow> nat" where
  "load_calls [] = 0"
| "load_calls (LoadCall location # tr) = Suc (load_calls tr)"
| "load_calls (e # tr) = load_calls tr"

text \<open>
  The events that the loop receives from a sequence of messages: those before the first
  closing of a channel, at which the goroutine returns.
\<close>

fun events_received :: "(watch_msg \<times> loader) list \<Rightarrow> nat" where
  "events_received [] = 0"
| "events_received ((Event name, load) # ms) = Suc (events_received ms)"
| "events_received ((WatcherError err, load) # ms) = events_received ms"
| "events_received ((EventsClosed, load) # ms) = 0"
| "events_received ((ErrorsClosed, load) # ms) = 0"

text \<open>A message at which the goroutine returns: the closing of one of the two channels.\<close>

fun closes :: "watch_msg \<Rightarrow> bool" where
  "closes EventsClosed = True"
| "closes ErrorsClosed = True"
| "closes m = False"

section \<open>Properties of mirrorSecret\<close>

lemma map_neq_at: "m k \<noteq> m' k \<Longrightarrow> m \<noteq> m'"
  by auto

lemma split_test_key: "SplitMetaNamespaceKey ''test-ns/src'' = Inr (''test-ns'', ''src'')"
  by (simp add: SplitMetaNamespaceKey_def)

text \<open>
  Claim C5. A source secret whose Data is empty is skipped: mirrorSecret returns nil
  and issues no create and no update, whatever the cache holds at the destination.
\<close>

theorem mirrorSecret_empty_source:
  assumes "Data source = Map.empty"
  shows "mirrorSecret c source to calls = (None, calls)"
  using assms by (simp add: mirrorSecret_def)

theorem mirrorSecret_empty_source_witness:
  "Data (defaultSecret\<lparr>Data := Map.empty\<rparr>) = Map.empty
   \<and> mirrorSecret (NewSecretMirror (\<lambda>namespace name. Inr defaultSecret) client_failing test_config)
        (defaultSecret\<lparr>Data := Map.empty\<rparr>)
        \<lparr>SecretLocation.Namespace = ''test-ns'', SecretLocation.Name = ''dst''\<rparr> []
      = (None, [])"
  using mirrorSecret_empty_source
    [of "defaultSecret\<lparr>Data := Map.empty\<rparr>"
        "NewSecretMirror (\<lambda>namespace name. Inr defaultSecret) client_failing test_config"
        "\<lparr>SecretLocation.Namespace = ''test-ns'', SecretLocation.Name = ''dst''\<rparr>" "[]"]
  by simp

text \<open>
  Claim C6. When the source has data and the cache holds a destination secret whose
  Data equals the source's Data, mirrorSecret returns nil and issues no write.
\<close>

theorem mirrorSecret_converged_noop:
  assumes "Data source \<noteq> Map.empty"
    and "lister c (SecretLocation.Namespace to) (SecretLocation.Name to) = Inr secret"
    and "Data secret = Data source"
  shows "mirrorSecret c source to calls = (None, calls)"
  using assms by (simp add: mirrorSecret_def)

theorem mirrorSecret_converged_noop_witness:
  "Data defaultSecret \<noteq> Map.empty
   \<and> mirrorSecret (NewSecretMirror (\<lambda>namespace name. Inr (defaultSecret\<lparr>Type := ''Opaque''\<rparr>))
                    client_failing test_config)
        defaultSecret
        \<lparr>SecretLocation.Namespace = ''test-ns'', SecretLocation.Name = ''dst''\<rparr> []
      = (None, [])"
proof -
  have d: "Data defaultSecret \<noteq> Map.empty"
    by (simp add: defaultSecret_def)
  show ?thesis
    using d mirrorSecret_converged_noop
      [of defaultSecret
          "NewSecretMirror (\<lambda>namespace name. Inr (defaultSecret\<lparr>Type := ''Opaque''\<rparr>))
             client_failing test_config"
          "\<lparr>SecretLocation.Namespace = ''test-ns'', SecretLocation.Name = ''dst''\<rparr>"
          "defaultSecret\<lparr>Type := ''Opaque''\<rparr>" "[]"]
    by (simp add: NewSecretMirror_def)
qed

text \<open>
  Claim C7. When the source has data and the lookup of the destination reports
  not-found, mirrorSecret issues one create, in the destination's namespace, of a secret
  with the destination's namespace and name and the source's Data; what it returns is
  what the create call returned, so it returns nil exactly when the create succeeds.
\<close>

theorem mirrorSecret_not_found_creates:
  assumes "Data source \<noteq> Map.empty"
    and "lister c (SecretLocation.Namespace to) (SecretLocation.Name to) = Inl getErr"
    and "IsNotFound (Some getErr)"
  shows "\<exists>obj. snd (mirrorSecret c source to calls)
                 = calls @ [Create (SecretLocation.Namespace to) obj]
           \<and> Namespace (ObjectMeta obj) = SecretLocation.Namespace to
           \<and> Name (ObjectMeta obj) = SecretLocation.Name to
           \<and> Data obj = Data source
           \<and> fst (mirrorSecret c source to calls)
                 = client c calls (Create (SecretLocation.Namespace to) obj)
           \<and> (fst (mirrorSecret c source to calls) = None
                \<longleftrightarrow> client c calls (Create (SecretLocation.Namespace to) obj) = None)"
  using assms by (simp add: mirrorSecret_def Let_def)

theorem mirrorSecret_not_found_creates_witness:
  "\<exists>obj. snd (mirrorSecret (NewSecretMirror (test_lister defaultSecret) client_failing test_config)
                 defaultSecret
                 \<lparr>SecretLocation.Namespace = ''test-ns'', SecretLocation.Name = ''dst''\<rparr> [])
            = [Create ''test-ns'' obj]
         \<and> Namespace (ObjectMeta obj) = ''test-ns''
         \<and> Name (ObjectMeta obj) = ''dst''
         \<and> Data obj = Data defaultSecret
         \<and> fst (mirrorSecret (NewSecretMirror (test_lister defaultSecret) client_failing test_config)
                 defaultSecret
                 \<lparr>SecretLocation.Namespace = ''test-ns'', SecretLocation.Name = ''dst''\<rparr> [])
            = Some (Failure ''injected error'')"
proof -
  let ?c = "NewSecretMirror (test_lister defaultSecret) client_failing test_config"
  let ?to = "\<lparr>SecretLocation.Namespace = ''test-ns'', SecretLocation.Name = ''dst''\<rparr>"
  have d: "Data defaultSecret \<noteq> Map.empty"
    by (simp add: defaultSecret_def)
  have l: "lister ?c (SecretLocation.Namespace ?to) (SecretLocation.Name ?to)
             = Inl (NotFound ''secret not found'')"
    by (simp add: NewSecretMirror_def test_lister_def)
  have n: "IsNotFound (Some (NotFound ''secret not found''))"
    by simp
  have cl: "\<And>a. client ?c [] a = Some (Failure ''injected error'')"
    by (simp add: NewSecretMirror_def client_failing_def)
  from mirrorSecret_not_found_creates [OF d l n, of "[]"]
  obtain obj where
    o: "snd (mirrorSecret ?c defaultSecret ?to []) = [] @ [Create (SecretLocation.Namespace ?to) obj]
      \<and> Namespace (ObjectMeta obj) = SecretLocation.Namespace ?to
      \<and> Name (ObjectMeta obj) = SecretLocation.Name ?to
      \<and> Data obj = Data defaultSecret
      \<and> fst (mirrorSecret ?c defaultSecret ?to [])
           = client ?c [] (Create (SecretLocation.Namespace ?to) obj)
      \<and> (fst (mirrorSecret ?c defaultSecret ?to []) = None
           \<longleftrightarrow> client ?c [] (Create (SecretLocation.Namespace ?to) obj) = None)"
    by (rule exE)
  have "snd (mirrorSecret ?c defaultSecret ?to []) = [Create ''test-ns'' obj]
      \<and> Namespace (ObjectMeta obj) = ''test-ns''
      \<and> Name (ObjectMeta obj) = ''dst''
      \<and> Data obj = Data defaultSecret
      \<and> fst (mirrorSecret ?c defaultSecret ?to []) = Some (Failure ''injected error'')"
    using o by (simp only: cl append_Nil SecretLocation.simps)
  then show ?thesis by (intro exI[of _ obj])
qed

text \<open>
  Claim C8. When the cache holds a destination secret whose Data differs from the
  source's non-empty Data, the object submitted to the update call is the existing
  destination with its Data replaced by the source's Data: metadata, StringData and
  Type are those of the existing destination.
\<close>

theorem mirrorSecret_update_replaces_only_Data:
  assumes "Data source \<noteq> Map.empty"
    and "lister c (SecretLocation.Namespace to) (SecretLocation.Name to) = Inr secret"
    and "Data secret \<noteq> Data source"
  shows "\<exists>obj. mirrorSecret c source to calls
                 = (client c calls (Update (SecretLocation.Namespace to) obj),
                    calls @ [Update (SecretLocation.Namespace to) obj])
           \<and> obj = secret\<lparr>Data := Data source\<rparr>
           \<and> ObjectMeta obj = ObjectMeta secret
           \<and> StringData obj = StringData secret
           \<and> Type obj = Type secret
           \<and> Data obj = Data source"
  using assms by (simp add: mirrorSecret_def Let_def)

theorem mirrorSecret_update_replaces_only_Data_witness:
  "mirrorSecret (NewSecretMirror (\<lambda>namespace name. Inr existing_dst) client_ok test_config)
     defaultSecret
     \<lparr>SecretLocation.Namespace = ''test-ns'', SecretLocation.Name = ''dst''\<rparr> []
   = (None, [Update ''test-ns'' (existing_dst\<lparr>Data := Data defaultSecret\<rparr>)])"
proof -
  let ?c = "NewSecretMirror (\<lambda>namespace name. Inr existing_dst) client_ok test_config"
  let ?to = "\<lparr>SecretLocation.Namespace = ''test-ns'', SecretLocation.Name = ''dst''\<rparr>"
  have d: "Data defaultSecret \<noteq> Map.empty"
    by (simp add: defaultSecret_def)
  have l: "lister ?c (SecretLocation.Namespace ?to) (SecretLocation.Name ?to) = Inr existing_dst"
    by (simp add: NewSecretMirror_def)
  have "Data existing_dst ''test_key'' \<noteq> Data defaultSecret ''test_key''"
    by (simp add: existing_dst_def defaultSecret_def)
  then have ne: "Data existing_dst \<noteq> Data defaultSecret"
    by (rule map_neq_at)
  have cl: "\<And>a. client ?c [] a = None"
    by (simp add: NewSecretMirror_def client_ok_def)
  from mirrorSecret_update_replaces_only_Data [OF d l ne, of "[]"]
  obtain obj where
    o: "mirrorSecret ?c defaultSecret ?to []
          = (client ?c [] (Update (SecretLocation.Namespace ?to) obj),
             [] @ [Update (SecretLocation.Namespace ?to) obj])
        \<and> obj = existing_dst\<lparr>Data := Data defaultSecret\<rparr>
        \<and> ObjectMeta obj = ObjectMeta existing_dst
        \<and> StringData obj = StringData existing_dst
        \<and> Type obj = Type existing_dst
        \<and> Data obj = Data defaultSecret"
    by (rule exE)
  from o have e: "obj = existing_dst\<lparr>Data := Data defaultSecret\<rparr>"
    by (elim conjE)
  from o have "mirrorSecret ?c defaultSecret ?to []
          = (client ?c [] (Update (SecretLocation.Namespace ?to) obj),
             [] @ [Update (SecretLocation.Namespace ?to) obj])"
    by (elim conjE)
  then show ?thesis
    unfolding e by (simp only: cl append_Nil SecretLocation.simps)
qed

text \<open>
  Claim C10. The secret that mirrorSecret creates carries the destination's namespace
  and name and the source's Data, and the zero value in every other field: no labels,
  annotations or other metadata and no type come from the source.
\<close>

theorem mirrorSecret_created_object_is_bare:
  assumes "Data source \<noteq> Map.empty"
    and "lister c (SecretLocation.Namespace to) (SecretLocation.Name to) = Inl getErr"
    and "IsNotFound (Some getErr)"
  shows "snd (mirrorSecret c source to calls)
           = calls @
             [Create (SecretLocation.Namespace to)
                \<lparr>ObjectMeta =
                   \<lparr>Name = SecretLocation.Name to,
                    Namespace = SecretLocation.Namespace to,
                    UID = [], ResourceVersion = [], DeletionTimestamp = None,
                    Labels = Map.empty, Annotations = Map.empty, Finalizers = []\<rparr>,
                 Data = Data source, StringData = Map.empty, Type = []\<rparr>]"
  using assms by (simp add: mirrorSecret_def Let_def zero_Secret_def zero_ObjectMeta_def)

theorem mirrorSecret_created_object_is_bare_witness:
  "snd (mirrorSecret (NewSecretMirror empty_lister client_ok test_config)
          (existing_dst\<lparr>ObjectMeta := (ObjectMeta existing_dst)\<lparr>Name := ''src''\<rparr>\<rparr>)
          \<lparr>SecretLocation.Namespace = ''other-ns'', SecretLocation.Name = ''copy''\<rparr> [])
   = [Create ''other-ns''
        \<lparr>ObjectMeta =
           \<lparr>Name = ''copy'', Namespace = ''other-ns'', UID = [], ResourceVersion = [],
            DeletionTimestamp = None, Labels = Map.empty, Annotations = Map.empty,
            Finalizers = []\<rparr>,
         Data = [''test_key'' \<mapsto> Some ''old_value''], StringData = Map.empty, Type = []\<rparr>]"
proof -
  let ?c = "NewSecretMirror empty_lister client_ok test_config"
  let ?to = "\<lparr>SecretLocation.Namespace = ''other-ns'', SecretLocation.Name = ''copy''\<rparr>"
  let ?src = "existing_dst\<lparr>ObjectMeta := (ObjectMeta existing_dst)\<lparr>Name := ''src''\<rparr>\<rparr>"
  have dd: "Data ?src = [''test_key'' \<mapsto> Some ''old_value'']"
    by (simp add: existing_dst_def)
  have d: "Data ?src \<noteq> Map.empty"
    unfolding dd by simp
  have l: "lister ?c (SecretLocation.Namespace ?to) (SecretLocation.Name ?to)
             = Inl (NotFound ''secret not found'')"
    by (simp add: NewSecretMirror_def empty_lister_def)
  have n: "IsNotFound (Some (NotFound ''secret not found''))"
    by simp
  show ?thesis
    using mirrorSecret_created_object_is_bare [OF d l n, of "[]"]
    by (simp only: dd append_Nil SecretLocation.simps)
qed

section \<open>Properties of reconcile\<close>

text \<open>
  Claim C9. reconcile returns nil and issues no write when the lookup of the source
  reports not-found, and when the source has a non-zero deletion timestamp. The lookup
  takes place once the key has split into a namespace and a name.
\<close>

theorem reconcile_missing_or_deleting_source:
  assumes "SplitMetaNamespaceKey key = Inr (namespace, name)"
    and "(\<exists>m. lister c namespace name = Inl (NotFound m))
         \<or> (\<exists>source. lister c namespace name = Inr source
                \<and> \<not> IsZero (DeletionTimestamp (ObjectMeta source)))"
  shows "reconcile c key calls = (None, calls)"
  using assms by (auto simp: reconcile_def)

theorem reconcile_missing_or_deleting_source_witness:
  "reconcile (NewSecretMirror empty_lister client_failing test_config) ''test-ns/src'' [] = (None, [])
   \<and> reconcile (NewSecretMirror (test_lister deleting_secret) client_failing test_config)
         ''test-ns/src'' [] = (None, [])"
proof -
  let ?c1 = "NewSecretMirror empty_lister client_failing test_config"
  let ?c2 = "NewSecretMirror (test_lister deleting_secret) client_failing test_config"
  have l1: "(\<exists>m. lister ?c1 ''test-ns'' ''src'' = Inl (NotFound m))
         \<or> (\<exists>source. lister ?c1 ''test-ns'' ''src'' = Inr source
                \<and> \<not> IsZero (DeletionTimestamp (ObjectMeta source)))"
    by (simp add: NewSecretMirror_def empty_lister_def)
  have z: "\<not> IsZero (DeletionTimestamp (ObjectMeta deleting_secret))"
    by (simp add: deleting_secret_def IsZero_def)
  have "lister ?c2 ''test-ns'' ''src'' = Inr deleting_secret"
    by (simp add: NewSecretMirror_def test_lister_def)
  with z have l2: "(\<exists>m. lister ?c2 ''test-ns'' ''src'' = Inl (NotFound m))
         \<or> (\<exists>source. lister ?c2 ''test-ns'' ''src'' = Inr source
                \<and> \<not> IsZero (DeletionTimestamp (ObjectMeta source)))"
    by simp
  show ?thesis
    using reconcile_missing_or_deleting_source [OF split_test_key l1, of "[]"]
          reconcile_missing_or_deleting_source [OF split_test_key l2, of "[]"]
    by (rule conjI)
qed

text \<open>
  The test's case of a secret that is copied, evaluated: the cache holds the source, the
  destination is missing and the create succeeds.
\<close>

lemma data_defaultSecret: "Data defaultSecret = [''test_key'' \<mapsto> Some ''test_value'']"
  by (simp add: defaultSecret_def)

lemma mirror_test_rule_ok:
  "mirrorSecret (NewSecretMirror (test_lister defaultSecret) client_ok cfg) defaultSecret
     \<lparr>SecretLocation.Namespace = ''test-ns'', SecretLocation.Name = ''dst''\<rparr> []
   = (None,
      [Create ''test-ns''
         (zero_Secret
            \<lparr>ObjectMeta := zero_ObjectMeta\<lparr>Name := ''dst'', Namespace := ''test-ns''\<rparr>,
             Data := [''test_key'' \<mapsto> Some ''test_value'']\<rparr>)])"
  by (simp add: mirrorSecret_def data_defaultSecret NewSecretMirror_def test_lister_def
        client_ok_def Let_def)

lemma zero_deletion_defaultSecret: "IsZero (DeletionTimestamp (ObjectMeta defaultSecret))"
  by (simp add: defaultSecret_def zero_ObjectMeta_def IsZero_def)

text \<open>
  Claim C1. At the input of the test's case "normal secret is copied" the source exists,
  is not being deleted and has data, the one matching rule's mirrorSecret returns nil,
  and reconcile returns the error built from the slice that holds that nil: the loop
  appends the result of every mirrorSecret, and the slice is then not empty.
\<close>

theorem reconcile_error_although_mirror_succeeds:
  "IsZero (DeletionTimestamp (ObjectMeta defaultSecret))
   \<and> Data defaultSecret = [''test_key'' \<mapsto> Some ''test_value'']
   \<and> fst (mirrorSecret (NewSecretMirror (test_lister defaultSecret) client_ok test_config)
             defaultSecret
             \<lparr>SecretLocation.Namespace = ''test-ns'', SecretLocation.Name = ''dst''\<rparr> []) = None
   \<and> reconcile (NewSecretMirror (test_lister defaultSecret) client_ok test_config)
        ''test-ns/src'' []
      = (Some (MirrorFailed [None]),
         [Create ''test-ns''
            (zero_Secret
               \<lparr>ObjectMeta := zero_ObjectMeta\<lparr>Name := ''dst'', Namespace := ''test-ns''\<rparr>,
                Data := [''test_key'' \<mapsto> Some ''test_value'']\<rparr>)])"
proof -
  let ?c = "NewSecretMirror (test_lister defaultSecret) client_ok test_config"
  have l: "lister ?c ''test-ns'' ''src'' = Inr defaultSecret"
    by (simp add: NewSecretMirror_def test_lister_def)
  have r: "Secrets (config ?c) =
      [\<lparr>From = \<lparr>SecretLocation.Namespace = ''test-ns'', SecretLocation.Name = ''src''\<rparr>,
        To = \<lparr>SecretLocation.Namespace = ''test-ns'', SecretLocation.Name = ''dst''\<rparr>\<rparr>]"
    by (simp add: NewSecretMirror_def test_config_def)
  have "reconcile ?c ''test-ns/src'' []
      = (Some (MirrorFailed [None]),
         [Create ''test-ns''
            (zero_Secret
               \<lparr>ObjectMeta := zero_ObjectMeta\<lparr>Name := ''dst'', Namespace := ''test-ns''\<rparr>,
                Data := [''test_key'' \<mapsto> Some ''test_value'']\<rparr>)])"
    by (simp add: reconcile_def split_test_key l r zero_deletion_defaultSecret
          mirror_test_rule_ok)
  then show ?thesis
    by (simp add: zero_deletion_defaultSecret data_defaultSecret mirror_test_rule_ok)
qed

text \<open>
  Claim C2. The controller holds the configuration it was constructed with. After the
  agent has published a configuration without rules, watched and loaded as Start's
  goroutine does, reconcile on a controller constructed with the earlier configuration
  still creates the destination of that configuration's rule; with the published
  configuration it would issue no write.
\<close>

theorem reconcile_keeps_construction_time_rules:
  "Config (Set_config new_agent (Some test_config)) = Some test_config
   \<and> Config (fst (watch_loop ''/etc/mirror/config.yaml''
                     [(Event ''/etc/mirror/config.yaml'', \<lambda>location. Inr no_rules)]
                     (Set_config new_agent (Some test_config), [])))
       = Some no_rules
   \<and> snd (reconcile (NewSecretMirror (test_lister defaultSecret) client_ok test_config)
             ''test-ns/src'' [])
       = [Create ''test-ns''
            (zero_Secret
               \<lparr>ObjectMeta := zero_ObjectMeta\<lparr>Name := ''dst'', Namespace := ''test-ns''\<rparr>,
                Data := [''test_key'' \<mapsto> Some ''test_value'']\<rparr>)]
   \<and> reconcile (NewSecretMirror (test_lister defaultSecret) client_ok no_rules)
         ''test-ns/src'' []
       = (None, [])"
proof -
  let ?c = "NewSecretMirror (test_lister defaultSecret) client_ok test_config"
  let ?c' = "NewSecretMirror (test_lister defaultSecret) client_ok no_rules"
  have a: "Config (Set_config new_agent (Some test_config)) = Some test_config"
    by (simp add: Config_def Set_config_def)
  have b: "Config (fst (watch_loop ''/etc/mirror/config.yaml''
                     [(Event ''/etc/mirror/config.yaml'', \<lambda>location. Inr no_rules)]
                     (Set_config new_agent (Some test_config), [])))
       = Some no_rules"
    by (simp add: Config_def Set_config_def)
  have l: "lister ?c ''test-ns'' ''src'' = Inr defaultSecret"
    by (simp add: NewSecretMirror_def test_lister_def)
  have r: "Secrets (config ?c) =
      [\<lparr>From = \<lparr>SecretLocation.Namespace = ''test-ns'', SecretLocation.Name = ''src''\<rparr>,
        To = \<lparr>SecretLocation.Namespace = ''test-ns'', SecretLocation.Name = ''dst''\<rparr>\<rparr>]"
    by (simp add: NewSecretMirror_def test_config_def)
  have c: "snd (reconcile ?c ''test-ns/src'' [])
       = [Create ''test-ns''
            (zero_Secret
               \<lparr>ObjectMeta := zero_ObjectMeta\<lparr>Name := ''dst'', Namespace := ''test-ns''\<rparr>,
                Data := [''test_key'' \<mapsto> Some ''test_value'']\<rparr>)]"
    by (simp add: reconcile_def split_test_key l r zero_deletion_defaultSecret
          mirror_test_rule_ok)
  have l': "lister ?c' ''test-ns'' ''src'' = Inr defaultSecret"
    by (simp add: NewSecretMirror_def test_lister_def)
  have r': "Secrets (config ?c') = []"
    by (simp add: NewSecretMirror_def no_rules_def)
  have d: "reconcile ?c' ''test-ns/src'' [] = (None, [])"
    by (simp add: reconcile_def split_test_key l' r' zero_deletion_defaultSecret)
  from a b c d show ?thesis
    by (intro conjI)
qed

section \<open>Properties of handleErr\<close>

lemma handleErr_nil: "handleErr None key q = Forget key q"
  by (simp add: handleErr_def)

lemma handleErr_retry:
  "NumRequeues q key < maxRetries \<Longrightarrow> handleErr (Some e) key q = AddRateLimited key q"
  by (simp add: handleErr_def)

lemma handleErr_drop:
  "\<not> NumRequeues q key < maxRetries \<Longrightarrow> handleErr (Some e) key q = Forget key q"
  by (simp add: handleErr_def)

lemma handleErr_failing_run:
  assumes "requeueCount q key = 0" and "n \<le> maxRetries"
  shows "requeueCount ((handleErr (Some e) key ^^ n) q) key = n
         \<and> scheduled ((handleErr (Some e) key ^^ n) q)
             = scheduled q @ map (\<lambda>i. (key, min (5 * 2 ^ i) 1000000)) [0..<n]"
  using assms
proof (induction n)
  case 0
  then show ?case by simp
next
  case (Suc n)
  let ?q = "(handleErr (Some e) key ^^ n) q"
  from Suc have ih: "requeueCount ?q key = n"
    "scheduled ?q = scheduled q @ map (\<lambda>i. (key, min (5 * 2 ^ i) 1000000)) [0..<n]"
    and lt: "n < maxRetries"
    by simp_all
  from ih(1) lt have "NumRequeues ?q key < maxRetries"
    by (simp add: NumRequeues_def)
  then have "handleErr (Some e) key ?q = AddRateLimited key ?q"
    by (rule handleErr_retry)
  then have "(handleErr (Some e) key ^^ Suc n) q = AddRateLimited key ?q"
    by simp
  with ih show ?case
    by (simp add: AddRateLimited_def Let_def)
qed

lemma handleErr_sixteenth:
  assumes "requeueCount q key = 0"
  shows "(handleErr (Some e) key ^^ 16) q = Forget key ((handleErr (Some e) key ^^ 15) q)"
proof -
  let ?q = "(handleErr (Some e) key ^^ 15) q"
  from assms handleErr_failing_run [of q key 15 e]
  have "requeueCount ?q key = 15"
    by (simp add: maxRetries_def)
  then have "\<not> NumRequeues ?q key < maxRetries"
    by (simp add: NumRequeues_def maxRetries_def)
  then have d: "handleErr (Some e) key ?q = Forget key ?q"
    by (rule handleErr_drop)
  have "(16::nat) = Suc 15" by simp
  then have "(handleErr (Some e) key ^^ 16) q = handleErr (Some e) key ?q"
    by (simp only: funpow.simps o_apply)
  with d show ?thesis by simp
qed

text \<open>
  Claim C3. After a nil error the key's requeue count is zero and no re-add is
  scheduled. After an error with fewer than 15 requeues the count is one more and one
  re-add of the key is scheduled, with the delay of the new count. After an error with
  15 requeues or more the count is zero and no re-add is scheduled. So for a key that
  starts at zero and fails every time, the first 15 failures each schedule a re-add,
  with delays that double from 5 ms, and the sixteenth drops the key.
\<close>

theorem handleErr_retry_policy:
  "(err = None \<longrightarrow>
      NumRequeues (handleErr err key q) key = 0
      \<and> scheduled (handleErr err key q) = scheduled q)
   \<and> (err \<noteq> None \<and> NumRequeues q key < 15 \<longrightarrow>
      NumRequeues (handleErr err key q) key = NumRequeues q key + 1
      \<and> scheduled (handleErr err key q)
          = scheduled q @ [(key, min (5 * 2 ^ NumRequeues q key) 1000000)])
   \<and> (err \<noteq> None \<and> 15 \<le> NumRequeues q key \<longrightarrow>
      NumRequeues (handleErr err key q) key = 0
      \<and> scheduled (handleErr err key q) = scheduled q)
   \<and> (err \<noteq> None \<and> NumRequeues q key = 0 \<longrightarrow>
      (\<forall>n\<le>15. NumRequeues ((handleErr err key ^^ n) q) key = n
              \<and> scheduled ((handleErr err key ^^ n) q)
                  = scheduled q @ map (\<lambda>i. (key, min (5 * 2 ^ i) 1000000)) [0..<n])
      \<and> NumRequeues ((handleErr err key ^^ 16) q) key = 0
      \<and> scheduled ((handleErr err key ^^ 16) q) = scheduled ((handleErr err key ^^ 15) q))"
proof (cases err)
  case None
  then show ?thesis
    by (simp add: handleErr_nil NumRequeues_def Forget_def)
next
  case (Some e)
  have retry: "NumRequeues q key < 15 \<Longrightarrow>
      NumRequeues (handleErr (Some e) key q) key = NumRequeues q key + 1
      \<and> scheduled (handleErr (Some e) key q)
          = scheduled q @ [(key, min (5 * 2 ^ NumRequeues q key) 1000000)]"
  proof -
    assume "NumRequeues q key < 15"
    then have "handleErr (Some e) key q = AddRateLimited key q"
      by (simp add: handleErr_retry maxRetries_def)
    then show ?thesis
      by (simp add: AddRateLimited_def NumRequeues_def Let_def)
  qed
  have drop: "15 \<le> NumRequeues q key \<Longrightarrow>
      NumRequeues (handleErr (Some e) key q) key = 0
      \<and> scheduled (handleErr (Some e) key q) = scheduled q"
  proof -
    assume "15 \<le> NumRequeues q key"
    then have "handleErr (Some e) key q = Forget key q"
      by (simp add: handleErr_drop maxRetries_def)
    then show ?thesis
      by (simp add: Forget_def NumRequeues_def)
  qed
  have run: "NumRequeues q key = 0 \<Longrightarrow>
      (\<forall>n\<le>15. NumRequeues ((handleErr (Some e) key ^^ n) q) key = n
              \<and> scheduled ((handleErr (Some e) key ^^ n) q)
                  = scheduled q @ map (\<lambda>i. (key, min (5 * 2 ^ i) 1000000)) [0..<n])
      \<and> NumRequeues ((handleErr (Some e) key ^^ 16) q) key = 0
      \<and> scheduled ((handleErr (Some e) key ^^ 16) q)
          = scheduled ((handleErr (Some e) key ^^ 15) q)"
  proof -
    assume "NumRequeues q key = 0"
    then have z: "requeueCount q key = 0"
      by (simp add: NumRequeues_def)
    have "\<And>n. n \<le> 15 \<Longrightarrow> NumRequeues ((handleErr (Some e) key ^^ n) q) key = n
              \<and> scheduled ((handleErr (Some e) key ^^ n) q)
                  = scheduled q @ map (\<lambda>i. (key, min (5 * 2 ^ i) 1000000)) [0..<n]"
      using handleErr_failing_run [OF z] by (simp add: NumRequeues_def maxRetries_def)
    moreover have "NumRequeues ((handleErr (Some e) key ^^ 16) q) key = 0"
      by (simp only: handleErr_sixteenth [OF z]) (simp add: NumRequeues_def Forget_def)
    moreover have "scheduled ((handleErr (Some e) key ^^ 16) q)
          = scheduled ((handleErr (Some e) key ^^ 15) q)"
      by (simp only: handleErr_sixteenth [OF z]) (simp add: Forget_def)
    ultimately show ?thesis by blast
  qed
  from retry drop run show ?thesis
    unfolding Some by blast
qed

theorem handleErr_retry_policy_witness:
  "NumRequeues (handleErr None ''test-ns/src'' fresh_queue) ''test-ns/src'' = 0
   \<and> scheduled (handleErr None ''test-ns/src'' fresh_queue) = []
   \<and> scheduled (handleErr (Some (Failure ''injected error'')) ''test-ns/src'' fresh_queue)
       = [(''test-ns/src'', 5)]
   \<and> NumRequeues ((handleErr (Some (Failure ''injected error'')) ''test-ns/src'' ^^ 15)
                     fresh_queue) ''test-ns/src'' = 15
   \<and> length (scheduled ((handleErr (Some (Failure ''injected error'')) ''test-ns/src'' ^^ 15)
                     fresh_queue)) = 15
   \<and> scheduled ((handleErr (Some (Failure ''injected error'')) ''test-ns/src'' ^^ 16)
                     fresh_queue)
       = scheduled ((handleErr (Some (Failure ''injected error'')) ''test-ns/src'' ^^ 15)
                     fresh_queue)
   \<and> NumRequeues (handleErr (Some (Failure ''injected error'')) ''test-ns/src''
                     ((handleErr (Some (Failure ''injected error'')) ''test-ns/src'' ^^ 15)
                        fresh_queue)) ''test-ns/src'' = 0"
proof -
  let ?e = "Some (Failure ''injected error'')"
  let ?k = "''test-ns/src''"
  let ?q15 = "(handleErr ?e ?k ^^ 15) fresh_queue"
  have z: "NumRequeues fresh_queue ?k = 0"
    by (simp add: NumRequeues_def fresh_queue_def)
  have s: "scheduled fresh_queue = []"
    by (simp add: fresh_queue_def)
  have ne: "?e \<noteq> None"
    by simp
  note nil = handleErr_retry_policy [of None ?k fresh_queue]
  note fail = handleErr_retry_policy [of ?e ?k fresh_queue]
  note last = handleErr_retry_policy [of ?e ?k ?q15]
  from nil have a: "NumRequeues (handleErr None ?k fresh_queue) ?k = 0
      \<and> scheduled (handleErr None ?k fresh_queue) = []"
    by (simp add: s)
  from fail ne z have b: "scheduled (handleErr ?e ?k fresh_queue) = [(?k, 5)]"
    by (simp add: s)
  from fail ne z have run: "\<forall>n\<le>15. NumRequeues ((handleErr ?e ?k ^^ n) fresh_queue) ?k = n
      \<and> scheduled ((handleErr ?e ?k ^^ n) fresh_queue)
          = scheduled fresh_queue @ map (\<lambda>i. (?k, min (5 * 2 ^ i) 1000000)) [0..<n]"
    by blast
  then have c: "NumRequeues ?q15 ?k = 15"
    and d: "scheduled ?q15
          = scheduled fresh_queue @ map (\<lambda>i. (?k, min (5 * 2 ^ i) 1000000)) [0..<15]"
    by simp_all
  from d have d': "length (scheduled ?q15) = 15"
    by (simp add: s)
  from fail ne z have f: "scheduled ((handleErr ?e ?k ^^ 16) fresh_queue) = scheduled ?q15"
    by blast
  from last ne c have g: "NumRequeues (handleErr ?e ?k ?q15) ?k = 0"
    by simp
  from a b c d' f g show ?thesis
    by (intro conjI) (elim conjE, assumption)+
qed

section \<open>Properties of the configuration agent\<close>

lemma load_calls_append: "load_calls (tr @ tr') = load_calls tr + load_calls tr'"
  by (induction tr rule: load_calls.induct) simp_all

lemma watch_loop_load_calls:
  "load_calls (snd (watch_loop configLocation ms (ca, tr))) = load_calls tr + events_received ms"
proof (induction ms arbitrary: ca tr)
  case Nil
  then show ?case by simp
next
  case (Cons m ms)
  obtain msg load where m: "m = (msg, load)"
    by (cases m)
  show ?case
  proof (cases msg)
    case (Event name)
    then show ?thesis
      using m Cons.IH by (cases "load configLocation") (simp_all add: load_calls_append)
  next
    case EventsClosed
    then show ?thesis using m by simp
  next
    case (WatcherError err)
    then show ?thesis
      using m Cons.IH by (simp add: load_calls_append)
  next
    case ErrorsClosed
    then show ?thesis using m by simp
  qed
qed

lemma watch_loop_append:
  assumes "\<forall>m \<in> set pre. \<not> closes (fst m)"
  shows "watch_loop configLocation (pre @ ms) s
           = watch_loop configLocation ms (watch_loop configLocation pre s)"
  using assms
proof (induction pre arbitrary: s)
  case Nil
  then show ?case by simp
next
  case (Cons m pre)
  obtain msg load where m: "m = (msg, load)"
    by (cases m)
  obtain ca tr where s: "s = (ca, tr)"
    by (cases s)
  from Cons.prems have rest: "\<forall>m \<in> set pre. \<not> closes (fst m)"
    by simp
  from Cons.prems m have open_msg: "\<not> closes msg"
    by simp
  show ?case
  proof (cases msg)
    case (Event name)
    then show ?thesis
      using m s Cons.IH [OF rest] by (cases "load configLocation") simp_all
  next
    case EventsClosed
    then show ?thesis using open_msg by simp
  next
    case (WatcherError err)
    then show ?thesis
      using m s Cons.IH [OF rest] by simp
  next
    case ErrorsClosed
    then show ?thesis using open_msg by simp
  qed
qed

text \<open>
  Claim C4. The watch loop calls Load once for every event it receives. Take any event
  that the loop receives, that is, one that follows messages none of which closes a
  channel. When Load fails at that event, the loop goes on with the agent that it had
  when the event arrived, so Config answers as before, and with the error added to
  the log only. When Load succeeds, the loop goes on with the agent set to the
  configuration loaded, which Config then returns.
\<close>

theorem watch_loop_reloads_on_every_event:
  assumes "\<forall>m \<in> set pre. \<not> closes (fst m)"
  shows
    "load_calls (snd (watch_loop configLocation ms (ca, tr)))
       = load_calls tr + events_received ms
     \<and> (\<forall>err. load configLocation = Inl err \<longrightarrow>
           watch_loop configLocation (pre @ (Event name, load) # rest) (ca, tr)
             = watch_loop configLocation rest
                 (fst (watch_loop configLocation pre (ca, tr)),
                  snd (watch_loop configLocation pre (ca, tr))
                    @ [LogModified name, LoadCall configLocation,
                       LogLoadError configLocation err])
           \<and> fst (watch_loop configLocation (pre @ [(Event name, load)]) (ca, tr))
               = fst (watch_loop configLocation pre (ca, tr))
           \<and> Config (fst (watch_loop configLocation (pre @ [(Event name, load)]) (ca, tr)))
               = Config (fst (watch_loop configLocation pre (ca, tr))))
     \<and> (\<forall>cfg. load configLocation = Inr cfg \<longrightarrow>
           watch_loop configLocation (pre @ (Event name, load) # rest) (ca, tr)
             = watch_loop configLocation rest
                 (Set_config (fst (watch_loop configLocation pre (ca, tr))) (Some cfg),
                  snd (watch_loop configLocation pre (ca, tr))
                    @ [LogModified name, LoadCall configLocation])
           \<and> Config (fst (watch_loop configLocation (pre @ [(Event name, load)]) (ca, tr)))
               = Some cfg)"
proof -
  obtain ca1 tr1 where p: "watch_loop configLocation pre (ca, tr) = (ca1, tr1)"
    by (cases "watch_loop configLocation pre (ca, tr)")
  have run: "\<And>ms. watch_loop configLocation (pre @ ms) (ca, tr)
                 = watch_loop configLocation ms (ca1, tr1)"
    using watch_loop_append [OF assms] p by simp
  have count: "load_calls (snd (watch_loop configLocation ms (ca, tr)))
       = load_calls tr + events_received ms"
    by (rule watch_loop_load_calls)
  have failure: "\<forall>err. load configLocation = Inl err \<longrightarrow>
           watch_loop configLocation (pre @ (Event name, load) # rest) (ca, tr)
             = watch_loop configLocation rest
                 (fst (watch_loop configLocation pre (ca, tr)),
                  snd (watch_loop configLocation pre (ca, tr))
                    @ [LogModified name, LoadCall configLocation,
                       LogLoadError configLocation err])
           \<and> fst (watch_loop configLocation (pre @ [(Event name, load)]) (ca, tr))
               = fst (watch_loop configLocation pre (ca, tr))
           \<and> Config (fst (watch_loop configLocation (pre @ [(Event name, load)]) (ca, tr)))
               = Config (fst (watch_loop configLocation pre (ca, tr)))"
    by (simp add: run p)
  have success: "\<forall>cfg. load configLocation = Inr cfg \<longrightarrow>
           watch_loop configLocation (pre @ (Event name, load) # rest) (ca, tr)
             = watch_loop configLocation rest
                 (Set_config (fst (watch_loop configLocation pre (ca, tr))) (Some cfg),
                  snd (watch_loop configLocation pre (ca, tr))
                    @ [LogModified name, LoadCall configLocation])
           \<and> Config (fst (watch_loop configLocation (pre @ [(Event name, load)]) (ca, tr)))
               = Some cfg"
    by (simp add: run p Config_def Set_config_def)
  from count failure success show ?thesis
    by (intro conjI)
qed

theorem watch_loop_reloads_on_every_event_witness:
  "load_calls (snd (watch_loop ''/etc/mirror/config.yaml''
                      [(Event ''/etc/mirror/..data'', \<lambda>location. Inl (Failure ''no such file'')),
                       (WatcherError (Failure ''overflow''), \<lambda>location. Inr no_rules),
                       (Event ''/etc/mirror/config.yaml'', \<lambda>location. Inr no_rules),
                       (EventsClosed, \<lambda>location. Inr test_config),
                       (Event ''/etc/mirror/config.yaml'', \<lambda>location. Inr test_config)]
                      (Set_config new_agent (Some test_config), []))) = 2
   \<and> Config (fst (watch_loop ''/etc/mirror/config.yaml''
                     [(WatcherError (Failure ''overflow''), \<lambda>location. Inr no_rules),
                      (Event ''/etc/mirror/..data'', \<lambda>location. Inl (Failure ''no such file''))]
                     (Set_config new_agent (Some test_config), [])))
       = Some test_config
   \<and> Config (fst (watch_loop ''/etc/mirror/config.yaml''
                     [(Event ''/etc/mirror/..data'', \<lambda>location. Inl (Failure ''no such file'')),
                      (Event ''/etc/mirror/config.yaml'', \<lambda>location. Inr no_rules)]
                     (Set_config new_agent (Some test_config), [])))
       = Some no_rules"
proof -
  let ?loc = "''/etc/mirror/config.yaml''"
  let ?bad = "\<lambda>location :: string. (Inl (Failure ''no such file'') :: error + Configuration)"
  let ?good = "\<lambda>location :: string. (Inr no_rules :: error + Configuration)"
  let ?ca = "Set_config new_agent (Some test_config)"
  let ?ms = "[(Event ''/etc/mirror/..data'', ?bad),
              (WatcherError (Failure ''overflow''), ?good),
              (Event ''/etc/mirror/config.yaml'', ?good),
              (EventsClosed, \<lambda>location. Inr test_config),
              (Event ''/etc/mirror/config.yaml'', \<lambda>location. Inr test_config)]"
  let ?pre1 = "[(WatcherError (Failure ''overflow''), ?good)]"
  let ?pre2 = "[(Event ''/etc/mirror/..data'', ?bad)]"
  have o1: "\<forall>m \<in> set ?pre1. \<not> closes (fst m)"
    by simp
  have o2: "\<forall>m \<in> set ?pre2. \<not> closes (fst m)"
    by simp
  have c1: "Config (fst (watch_loop ?loc ?pre1 (?ca, []))) = Some test_config"
    by (simp add: Config_def Set_config_def)
  from watch_loop_reloads_on_every_event
         [OF o1, of ?loc ?ms ?ca "[]" ?bad "''/etc/mirror/..data''" "[]"]
  have a: "load_calls (snd (watch_loop ?loc ?ms (?ca, []))) = 2"
    and b: "Config (fst (watch_loop ?loc (?pre1 @ [(Event ''/etc/mirror/..data'', ?bad)]) (?ca, [])))
              = Config (fst (watch_loop ?loc ?pre1 (?ca, [])))"
    by simp_all
  from watch_loop_reloads_on_every_event
         [OF o2, of ?loc "[]" ?ca "[]" ?good "''/etc/mirror/config.yaml''" "[]"]
  have d: "Config (fst (watch_loop ?loc (?pre2 @ [(Event ''/etc/mirror/config.yaml'', ?good)])
                          (?ca, [])))
              = Some no_rules"
    by simp
  from a b c1 d show ?thesis
    by simp
qed

end
